theory Spec2Isabelle
  imports Main "HOL-Library.Word"
begin

section \<open>The SQL functions sqlar_compress and sqlar_uncompress of ext/misc/sqlar.c\<close>

text \<open>
  The file is compiled with \<^verbatim>\<open>COMPRESS_ZLIB\<close> undefined (line 19), so the zstd
  branches of the conditional compilation are the ones embedded here.

  The two C functions talk to three collaborators whose code is not part of the file:
  the SQL value passed as \<^verbatim>\<open>argv[0]\<close>, the allocator \<^verbatim>\<open>sqlite3_malloc\<close>, and the zstd
  library. Each of them is a parameter of the embedding. What a function hands to
  \<^verbatim>\<open>sqlite3_result_*\<close> is its result, and the allocator and codec calls it makes are
  recorded, in order, in a list returned beside the result.
\<close>

subsection \<open>Data\<close>

type_synonym byte = "8 word"

text \<open>The fundamental datatype codes returned by \<^verbatim>\<open>sqlite3_value_type\<close>.\<close>

datatype sql_type = SQLITE_INTEGER | SQLITE_FLOAT | SQLITE_TEXT | SQLITE_BLOB | SQLITE_NULL

text \<open>
  The functions read \<^verbatim>\<open>argv[0]\<close> only through \<^verbatim>\<open>sqlite3_value_type\<close>,
  \<^verbatim>\<open>sqlite3_value_blob\<close> and \<^verbatim>\<open>sqlite3_value_bytes\<close>; a value is what these accessors
  return for it. \<^verbatim>\<open>sqlite3_value_bytes\<close> is the number of bytes \<^verbatim>\<open>sqlite3_value_blob\<close>
  points to. The second argument is read only through \<^verbatim>\<open>sqlite3_value_int\<close>: it is
  passed to the embedded functions as that C \<^verbatim>\<open>int\<close>.
\<close>

record sqlite3_value =
  sqlite3_value_type :: sql_type
  sqlite3_value_blob :: "byte list"

definition sqlite3_value_bytes :: "sqlite3_value \<Rightarrow> nat" where
  "sqlite3_value_bytes v = length (sqlite3_value_blob v)"

text \<open>A binary payload as an SQL value.\<close>

definition blob :: "byte list \<Rightarrow> sqlite3_value" where
  "blob bs = \<lparr>sqlite3_value_type = SQLITE_BLOB, sqlite3_value_blob = bs\<rparr>"

text \<open>
  What the function leaves in the \<^verbatim>\<open>sqlite3_context\<close>: one constructor for each
  \<^verbatim>\<open>sqlite3_result_*\<close> call of the file.
\<close>

datatype sqlite3_result =
    Result_value sqlite3_value   \<comment> \<open>\<^verbatim>\<open>sqlite3_result_value(context, argv[0])\<close>: the argument itself\<close>
  | Result_blob "byte list"      \<comment> \<open>\<^verbatim>\<open>sqlite3_result_blob(context, pOut, n, SQLITE_TRANSIENT)\<close>\<close>
  | Result_error string          \<comment> \<open>\<^verbatim>\<open>sqlite3_result_error(context, msg, -1)\<close>\<close>
  | Result_error_nomem           \<comment> \<open>\<^verbatim>\<open>sqlite3_result_error_nomem(context)\<close>\<close>

text \<open>The allocator and codec calls a function makes.\<close>

datatype call =
    Call_sqlite3_malloc int                  \<comment> \<open>the \<^verbatim>\<open>int\<close> argument\<close>
  | Call_ZSTD_compress nat "byte list" int   \<comment> \<open>capacity, source, level\<close>
  | Call_ZSTD_decompress nat "byte list"     \<comment> \<open>capacity, source\<close>
  | Call_sqlite3_free

text \<open>The calls that enter the codec.\<close>

fun is_codec_call :: "call \<Rightarrow> bool" where
  "is_codec_call (Call_ZSTD_compress cap src lvl) = True"
| "is_codec_call (Call_ZSTD_decompress cap src) = True"
| "is_codec_call c = False"

subsection \<open>Parameters: the allocator and the codec\<close>

text \<open>
  \<^verbatim>\<open>sqlite3_malloc(int)\<close> either returns a buffer or a null pointer; the field says
  whether the call with that argument returns a buffer.
\<close>

record sqlite3_api =
  sqlite3_malloc :: "int \<Rightarrow> bool"

text \<open>
  The zstd entry points. \<^verbatim>\<open>ZSTD_compress\<close> and \<^verbatim>\<open>ZSTD_decompress\<close> return a
  \<^verbatim>\<open>size_t\<close> that is either an error code (\<^verbatim>\<open>ZSTD_isError\<close>) or the number of bytes
  written to the destination buffer: \<open>Inl\<close> carries the error code, \<open>Inr\<close> the bytes
  written. Their first argument is the destination capacity.
\<close>

type_synonym ZSTD_ErrorCode = nat

record zstd =
  ZSTD_compressBound :: "nat \<Rightarrow> nat"
  ZSTD_CLEVEL_DEFAULT :: int
  ZSTD_maxCLevel :: int
  ZSTD_compress :: "nat \<Rightarrow> byte list \<Rightarrow> int \<Rightarrow> ZSTD_ErrorCode + byte list"
  ZSTD_decompress :: "nat \<Rightarrow> byte list \<Rightarrow> ZSTD_ErrorCode + byte list"

definition MAGIC_ZSTD_0 :: byte where
  "MAGIC_ZSTD_0 = 0x28"

subsection \<open>Integer conversions\<close>

text \<open>
  \<^verbatim>\<open>sqlite3_malloc\<close> takes an \<^verbatim>\<open>int\<close>; the compressor passes it the \<^verbatim>\<open>size_t\<close> bound
  (line 77), which is cut to its low 32 bits and read as two's complement.
\<close>

definition int_of_size_t :: "nat \<Rightarrow> int" where
  "int_of_size_t n =
     (let m = int n mod 2 ^ 32 in if m < 2 ^ 31 then m else m - 2 ^ 32)"

subsection \<open>sqlarCompressFunc (lines 51--98)\<close>

text \<open>Lines 71--74: the level handed to the codec.\<close>

definition effective_level :: "zstd \<Rightarrow> int \<Rightarrow> int" where
  "effective_level z lvl =
     (if lvl = - 1 then ZSTD_CLEVEL_DEFAULT z
      else if lvl > ZSTD_maxCLevel z then ZSTD_maxCLevel z
      else lvl)"

definition sqlarCompressFunc ::
  "zstd \<Rightarrow> sqlite3_api \<Rightarrow> sqlite3_value \<Rightarrow> int \<Rightarrow> sqlite3_result \<times> call list" where
  "sqlarCompressFunc z api argv0 argv1 =
     (if sqlite3_value_type argv0 = SQLITE_BLOB then
        (let pData = sqlite3_value_blob argv0;
             nData = sqlite3_value_bytes argv0;
             nOut = ZSTD_compressBound z nData;
             lvl = effective_level z argv1
         in if \<not> sqlite3_malloc api (int_of_size_t nOut) then
              (Result_error_nomem, [Call_sqlite3_malloc (int_of_size_t nOut)])
            else
              (case ZSTD_compress z nOut pData lvl of
                 Inl err \<Rightarrow>
                   (Result_error ''error in compress()'',
                    [Call_sqlite3_malloc (int_of_size_t nOut),
                     Call_ZSTD_compress nOut pData lvl, Call_sqlite3_free])
               | Inr out \<Rightarrow>
                   if length out < nData \<and> lvl \<noteq> 0 then
                     (Result_blob out,
                      [Call_sqlite3_malloc (int_of_size_t nOut),
                       Call_ZSTD_compress nOut pData lvl, Call_sqlite3_free])
                   else
                     (Result_value argv0,
                      [Call_sqlite3_malloc (int_of_size_t nOut),
                       Call_ZSTD_compress nOut pData lvl, Call_sqlite3_free])))
      else (Result_value argv0, []))"

subsection \<open>sqlarUncompressFunc (lines 110--146)\<close>

text \<open>
  \<open>sz\<close> is the \<^verbatim>\<open>int\<close> read from the second argument. When the first test of line 121
  fails \<open>sz\<close> is positive, so comparing it with the unsigned \<open>nData\<close> compares the
  two numbers. Line 144 frees \<open>pOut\<close> on every path of the else branch, the null
  pointer of a failed allocation included.
\<close>

definition sqlarUncompressFunc ::
  "zstd \<Rightarrow> sqlite3_api \<Rightarrow> sqlite3_value \<Rightarrow> int \<Rightarrow> sqlite3_result \<times> call list" where
  "sqlarUncompressFunc z api argv0 sz =
     (if sz \<le> 0 \<or> sz = int (sqlite3_value_bytes argv0) then (Result_value argv0, [])
      else
        (let nData = sqlite3_value_bytes argv0;
             szf = nat sz;
             pData = sqlite3_value_blob argv0
         in if \<not> sqlite3_malloc api sz then
              (Result_error_nomem, [Call_sqlite3_malloc sz, Call_sqlite3_free])
            else if nData \<le> 4 \<or> pData ! 0 \<noteq> MAGIC_ZSTD_0 then
              (Result_value argv0, [Call_sqlite3_malloc sz, Call_sqlite3_free])
            else
              (case ZSTD_decompress z szf pData of
                 Inl err \<Rightarrow>
                   (Result_error ''error in uncompress()'',
                    [Call_sqlite3_malloc sz, Call_ZSTD_decompress szf pData,
                     Call_sqlite3_free])
               | Inr out \<Rightarrow>
                   (Result_blob out,
                    [Call_sqlite3_malloc sz, Call_ZSTD_decompress szf pData,
                     Call_sqlite3_free]))))"

subsection \<open>Composition of the two functions\<close>

text \<open>
  The SQL value a result denotes: the argument handed back, or a new blob; an error
  denotes none.
\<close>

fun returned :: "sqlite3_result \<Rightarrow> sqlite3_value option" where
  "returned (Result_value v) = Some v"
| "returned (Result_blob bs) = Some (blob bs)"
| "returned (Result_error msg) = None"
| "returned Result_error_nomem = None"

text \<open>
  \<^verbatim>\<open>sqlar_uncompress(sqlar_compress(P, L), length(P))\<close>. The two calls happen at
  different times, so each has its own allocator behaviour.
\<close>

definition sqlar_roundtrip ::
  "zstd \<Rightarrow> sqlite3_api \<Rightarrow> sqlite3_api \<Rightarrow> byte list \<Rightarrow> int \<Rightarrow> sqlite3_value option" where
  "sqlar_roundtrip z api1 api2 P L =
     (case returned (fst (sqlarCompressFunc z api1 (blob P) L)) of
        None \<Rightarrow> None
      | Some v \<Rightarrow> returned (fst (sqlarUncompressFunc z api2 v (int (length P)))))"

subsection \<open>A concrete codec and allocators for running the functions\<close>

text \<open>
  A run-length codec behind the zstd frame magic \<^verbatim>\<open>28 b5 2f fd\<close> (line 47): after the
  magic, a sequence of pairs (run length, byte). Like zstd, its decompressor rejects
  input that does not start with the whole magic, and both directions report an error
  when the destination is too small. It stands in for the library wherever a function
  is run on concrete bytes.
\<close>

definition zstd_magic :: "byte list" where
  "zstd_magic = [0x28, 0xB5, 0x2F, 0xFD]"

fun rle_run :: "byte \<Rightarrow> nat \<Rightarrow> byte list \<Rightarrow> byte list" where
  "rle_run b n [] = [of_nat n, b]"
| "rle_run b n (x # xs) =
     (if x = b \<and> n < 255 then rle_run b (Suc n) xs else of_nat n # b # rle_run x 1 xs)"

definition rle_encode :: "byte list \<Rightarrow> byte list" where
  "rle_encode xs = (case xs of [] \<Rightarrow> [] | x # xs' \<Rightarrow> rle_run x 1 xs')"

fun rle_decode :: "byte list \<Rightarrow> byte list option" where
  "rle_decode [] = Some []"
| "rle_decode [n] = None"
| "rle_decode (n # b # rest) =
     (case rle_decode rest of
        None \<Rightarrow> None
      | Some ys \<Rightarrow> Some (replicate (unat n) b @ ys))"

definition rle_compress :: "nat \<Rightarrow> byte list \<Rightarrow> int \<Rightarrow> ZSTD_ErrorCode + byte list" where
  "rle_compress cap src lvl =
     (let out = zstd_magic @ rle_encode src
      in if cap < length out then Inl 70 else Inr out)"

definition rle_decompress :: "nat \<Rightarrow> byte list \<Rightarrow> ZSTD_ErrorCode + byte list" where
  "rle_decompress cap src =
     (if take 4 src \<noteq> zstd_magic then Inl 10
      else case rle_decode (drop 4 src) of
             None \<Rightarrow> Inl 20
           | Some out \<Rightarrow> if cap < length out then Inl 70 else Inr out)"

definition rle_zstd :: zstd where
  "rle_zstd =
     \<lparr>ZSTD_compressBound = (\<lambda>n. 2 * n + 4), ZSTD_CLEVEL_DEFAULT = 3, ZSTD_maxCLevel = 22,
      ZSTD_compress = rle_compress, ZSTD_decompress = rle_decompress\<rparr>"

text \<open>The same codec when its compressor cannot get working memory (error code 64).\<close>

definition failing_zstd :: zstd where
  "failing_zstd = rle_zstd\<lparr>ZSTD_compress := (\<lambda>cap src lvl. Inl 64)\<rparr>"

text \<open>
  An allocator that serves every request of positive size, and one that serves none.
\<close>

definition heap_ok :: sqlite3_api where
  "heap_ok = \<lparr>sqlite3_malloc = (\<lambda>n. 0 < n)\<rparr>"

definition heap_exhausted :: sqlite3_api where
  "heap_exhausted = \<lparr>sqlite3_malloc = (\<lambda>n. False)\<rparr>"

text \<open>Eight equal bytes, and their compressed form under the run-length codec.\<close>

definition eight_A :: "byte list" where
  "eight_A = [0x41, 0x41, 0x41, 0x41, 0x41, 0x41, 0x41, 0x41]"

definition eight_A_packed :: "byte list" where
  "eight_A_packed = [0x28, 0xB5, 0x2F, 0xFD, 8, 0x41]"

text \<open>A thousand equal bytes.\<close>

definition thousand_A :: "byte list" where
  "thousand_A = replicate 1000 0x41"

section \<open>Evaluation rules\<close>

lemmas sqlar_defs =
  sqlarCompressFunc_def sqlarUncompressFunc_def effective_level_def int_of_size_t_def
  sqlite3_value_bytes_def blob_def MAGIC_ZSTD_0_def

lemma replicate_numeral_step: "replicate (numeral k) b = b # replicate (pred_numeral k) b"
  by (simp add: numeral_eq_Suc)

lemmas run_defs =
  rle_zstd_def failing_zstd_def heap_ok_def heap_exhausted_def rle_compress_def
  rle_decompress_def rle_encode_def zstd_magic_def eight_A_def eight_A_packed_def
  replicate_numeral_step

section \<open>Properties\<close>

text \<open>
  C1, as stated, at a concrete input: a thousand equal bytes at level 3. The compressor
  returns a blob for them, and the decoder, called on that blob with the declared size
  1000, cannot get its output buffer (line 126): the result is the out-of-memory error,
  not the original bytes. When it is the compressor that cannot get its scratch buffer
  (line 77), there is no blob to decode at all.
\<close>

theorem roundtrip_nomem_counterexample:
  "returned (fst (sqlarCompressFunc rle_zstd heap_ok (blob thousand_A) 3)) \<noteq> None
   \<and> sqlar_roundtrip rle_zstd heap_ok heap_exhausted thousand_A 3 = None
   \<and> sqlar_roundtrip rle_zstd heap_ok heap_exhausted thousand_A 3 \<noteq> Some (blob thousand_A)
   \<and> sqlar_roundtrip rle_zstd heap_exhausted heap_ok thousand_A 3 = None
   \<and> sqlar_roundtrip rle_zstd heap_exhausted heap_ok thousand_A 3 \<noteq> Some (blob thousand_A)"
proof -
  have enc: "returned (fst (sqlarCompressFunc rle_zstd heap_ok (blob thousand_A) 3)) \<noteq> None"
    by code_simp
  have dec: "sqlar_roundtrip rle_zstd heap_ok heap_exhausted thousand_A 3 = None"
    by code_simp
  have alloc: "sqlar_roundtrip rle_zstd heap_exhausted heap_ok thousand_A 3 = None"
    by code_simp
  from enc dec alloc show ?thesis by simp
qed

text \<open>
  C1, amended. For every payload \<open>P\<close> and level \<open>L\<close>, decoding the compressor's result
  with the declared size \<open>length P\<close> gives back the blob \<open>P\<close> if and only if
  \<^item> the compressor obtains its scratch buffer,
  \<^item> the codec compresses \<open>P\<close> without an error, into some \<open>C\<close>, and
  \<^item> in case \<open>C\<close> is what the compressor returns (\<open>C\<close> is strictly shorter than \<open>P\<close>
    and the effective level is not 0): the decoder obtains its buffer of \<open>length P\<close>
    bytes, \<open>C\<close> is longer than four bytes and begins with the byte \<^verbatim>\<open>0x28\<close>, and the
    codec decompresses \<open>C\<close> into \<open>P\<close> within \<open>length P\<close> bytes.
  When \<open>P\<close> is handed back uncompressed, nothing is asked of the decoder's allocator or
  of the codec's output.
\<close>

theorem roundtrip:
  "sqlar_roundtrip z api1 api2 P L = Some (blob P) \<longleftrightarrow>
     sqlite3_malloc api1 (int_of_size_t (ZSTD_compressBound z (length P)))
     \<and> (case ZSTD_compress z (ZSTD_compressBound z (length P)) P (effective_level z L) of
          Inl err \<Rightarrow> False
        | Inr C \<Rightarrow>
            length C < length P \<and> effective_level z L \<noteq> 0 \<longrightarrow>
              sqlite3_malloc api2 (int (length P)) \<and> 4 < length C \<and> C ! 0 = MAGIC_ZSTD_0
              \<and> ZSTD_decompress z (length P) C = Inr P)"
  by (auto simp add: sqlar_roundtrip_def sqlarCompressFunc_def sqlarUncompressFunc_def
      sqlite3_value_bytes_def blob_def Let_def split: sum.splits)

theorem roundtrip_witness:
  "sqlar_roundtrip rle_zstd heap_ok heap_ok eight_A 3 = Some (blob eight_A)
   \<and> sqlar_roundtrip rle_zstd heap_ok heap_exhausted eight_A_packed 3
       = Some (blob eight_A_packed)
   \<and> sqlar_roundtrip rle_zstd heap_ok heap_exhausted eight_A 0 = Some (blob eight_A)
   \<and> sqlar_roundtrip rle_zstd heap_ok heap_exhausted [] 3 = Some (blob [])"
  using
    roundtrip
      [where z = rle_zstd and ?api1.0 = heap_ok and ?api2.0 = heap_ok and P = eight_A
         and L = 3]
    roundtrip
      [where z = rle_zstd and ?api1.0 = heap_ok and ?api2.0 = heap_exhausted
         and P = eight_A_packed and L = 3]
    roundtrip
      [where z = rle_zstd and ?api1.0 = heap_ok and ?api2.0 = heap_exhausted and P = eight_A
         and L = 0]
    roundtrip
      [where z = rle_zstd and ?api1.0 = heap_ok and ?api2.0 = heap_exhausted and P = "[]"
         and L = 3]
  by (simp add: sqlar_defs run_defs)

text \<open>
  C2, as stated, at two concrete inputs, both with the declared size 10 for a payload of
  five bytes. The payload \<^verbatim>\<open>28 00 00 00 00\<close> does not carry the magic prefix
  \<^verbatim>\<open>28 b5 2f fd\<close>, yet the decoder calls the decompression routine on it, because only
  its first byte is looked at, and the codec's error comes back as
  \<^verbatim>\<open>error in uncompress()\<close>. The payload \<^verbatim>\<open>00 00 00 00 00\<close> has no magic byte at all,
  and is not returned either when the allocation of line 126 fails.
\<close>

theorem uncompress_first_byte_counterexample:
  "take 4 [0x28, 0, 0, 0, 0 :: byte] \<noteq> zstd_magic
   \<and> sqlarUncompressFunc rle_zstd heap_ok (blob [0x28, 0, 0, 0, 0]) 10
       = (Result_error ''error in uncompress()'',
          [Call_sqlite3_malloc 10, Call_ZSTD_decompress 10 [0x28, 0, 0, 0, 0],
           Call_sqlite3_free])
   \<and> sqlarUncompressFunc rle_zstd heap_exhausted (blob [0, 0, 0, 0, 0]) 10
       = (Result_error_nomem, [Call_sqlite3_malloc 10, Call_sqlite3_free])"
  by (simp add: sqlar_defs run_defs)

text \<open>
  C2, amended. The signature test of the decoder is: the payload is longer than four
  bytes and its first byte is \<^verbatim>\<open>0x28\<close>. For every call with a positive declared size
  different from the payload's length whose buffer allocation succeeds, a payload that
  fails this test is returned unchanged. A payload that fails the test never yields
  \<^verbatim>\<open>error in uncompress()\<close> and never reaches the decompression routine, whatever the
  declared size and the allocator do; and the decompression routine is called only for
  payloads longer than four bytes whose first byte is \<^verbatim>\<open>0x28\<close>.
\<close>

theorem uncompress_signature_gate:
  "(0 < sz \<and> sz \<noteq> int (length (sqlite3_value_blob X)) \<and> sqlite3_malloc api sz
      \<and> (length (sqlite3_value_blob X) \<le> 4 \<or> sqlite3_value_blob X ! 0 \<noteq> MAGIC_ZSTD_0)
     \<longrightarrow> sqlarUncompressFunc z api X sz
           = (Result_value X, [Call_sqlite3_malloc sz, Call_sqlite3_free]))
   \<and> (length (sqlite3_value_blob X) \<le> 4 \<or> sqlite3_value_blob X ! 0 \<noteq> MAGIC_ZSTD_0
     \<longrightarrow> fst (sqlarUncompressFunc z api X sz) \<noteq> Result_error ''error in uncompress()''
         \<and> Call_ZSTD_decompress cap src \<notin> set (snd (sqlarUncompressFunc z api X sz)))
   \<and> (Call_ZSTD_decompress cap src \<in> set (snd (sqlarUncompressFunc z api X sz))
     \<longrightarrow> 4 < length (sqlite3_value_blob X) \<and> sqlite3_value_blob X ! 0 = MAGIC_ZSTD_0)"
  by (auto simp add: sqlarUncompressFunc_def sqlite3_value_bytes_def Let_def
      split: sum.splits)

theorem uncompress_signature_gate_witness:
  "sqlarUncompressFunc rle_zstd heap_ok (blob [0, 0xB5, 0x2F, 0xFD, 0]) 10
     = (Result_value (blob [0, 0xB5, 0x2F, 0xFD, 0]),
        [Call_sqlite3_malloc 10, Call_sqlite3_free])
   \<and> fst (sqlarUncompressFunc rle_zstd heap_exhausted (blob [0x28, 0xB5, 0x2F, 0xFD]) 10)
       \<noteq> Result_error ''error in uncompress()''
   \<and> Call_ZSTD_decompress 10 [0x28, 0xB5, 0x2F, 0xFD]
       \<notin> set (snd (sqlarUncompressFunc rle_zstd heap_exhausted
                     (blob [0x28, 0xB5, 0x2F, 0xFD]) 10))
   \<and> Call_ZSTD_decompress 8 eight_A_packed
       \<in> set (snd (sqlarUncompressFunc rle_zstd heap_ok (blob eight_A_packed) 8))
   \<and> 4 < length eight_A_packed \<and> eight_A_packed ! 0 = MAGIC_ZSTD_0"
  using
    uncompress_signature_gate
      [where sz = 10 and X = "blob [0, 0xB5, 0x2F, 0xFD, 0]" and api = heap_ok
         and z = rle_zstd and cap = 10 and src = "[]"]
    uncompress_signature_gate
      [where sz = 10 and X = "blob [0x28, 0xB5, 0x2F, 0xFD]" and api = heap_exhausted
         and z = rle_zstd and cap = 10 and src = "[0x28, 0xB5, 0x2F, 0xFD]"]
    uncompress_signature_gate
      [where sz = 8 and X = "blob eight_A_packed" and api = heap_ok and z = rle_zstd
         and cap = 8 and src = eight_A_packed]
  by (simp add: sqlar_defs run_defs)

text \<open>
  C3. For a blob whose compression succeeds (the scratch buffer was obtained and the
  codec returned \<open>out\<close> without an error), the compressor returns the compressed
  buffer if and only if \<open>out\<close> is strictly shorter than the input and the effective
  level is not 0; otherwise it returns the argument unchanged.
\<close>

theorem compress_decision_rule:
  assumes "sqlite3_value_type X = SQLITE_BLOB"
    and "sqlite3_malloc api
           (int_of_size_t (ZSTD_compressBound z (length (sqlite3_value_blob X))))"
    and "ZSTD_compress z (ZSTD_compressBound z (length (sqlite3_value_blob X)))
           (sqlite3_value_blob X) (effective_level z L) = Inr out"
  shows "(fst (sqlarCompressFunc z api X L) = Result_blob out
            \<longleftrightarrow> length out < length (sqlite3_value_blob X) \<and> effective_level z L \<noteq> 0)
       \<and> (\<not> (length out < length (sqlite3_value_blob X) \<and> effective_level z L \<noteq> 0)
            \<longrightarrow> fst (sqlarCompressFunc z api X L) = Result_value X)"
  using assms by (simp add: sqlarCompressFunc_def sqlite3_value_bytes_def Let_def)

theorem compress_decision_rule_witness:
  "fst (sqlarCompressFunc rle_zstd heap_ok (blob eight_A) 3) = Result_blob eight_A_packed
   \<and> length eight_A_packed < length eight_A
   \<and> effective_level rle_zstd 3 \<noteq> 0
   \<and> fst (sqlarCompressFunc rle_zstd heap_ok (blob eight_A_packed) 3)
       = Result_value (blob eight_A_packed)
   \<and> fst (sqlarCompressFunc rle_zstd heap_ok (blob eight_A) 0) = Result_value (blob eight_A)"
  using
    compress_decision_rule
      [where X = "blob eight_A" and api = heap_ok and z = rle_zstd and L = 3
         and out = eight_A_packed]
    compress_decision_rule
      [where X = "blob eight_A_packed" and api = heap_ok and z = rle_zstd and L = 3
         and out = "[0x28, 0xB5, 0x2F, 0xFD, 1, 0x28, 1, 0xB5, 1, 0x2F, 1, 0xFD, 1, 8, 1, 0x41]"]
    compress_decision_rule
      [where X = "blob eight_A" and api = heap_ok and z = rle_zstd and L = 0
         and out = eight_A_packed]
  by (simp add: sqlar_defs run_defs)

text \<open>
  C4, as stated, at a concrete input. With level 0 the compressor still allocates and
  still calls the codec: when the codec reports an error the result is
  \<^verbatim>\<open>error in compress()\<close>, and when the allocation fails it is the out-of-memory error;
  in neither case the payload.
\<close>

theorem compress_level0_counterexample:
  "sqlarCompressFunc failing_zstd heap_ok (blob eight_A) 0
     = (Result_error ''error in compress()'',
        [Call_sqlite3_malloc 20, Call_ZSTD_compress 20 eight_A 0, Call_sqlite3_free])
   \<and> fst (sqlarCompressFunc failing_zstd heap_ok (blob eight_A) 0)
       \<noteq> Result_value (blob eight_A)
   \<and> fst (sqlarCompressFunc rle_zstd heap_exhausted (blob eight_A) 0) = Result_error_nomem"
  by (simp add: sqlar_defs run_defs)

text \<open>
  C4, amended. For every argument, under a codec whose maximum level is not negative,
  the result of the compressor called with level 0 is
  \<^item> the unchanged argument when the argument is not a blob;
  \<^item> the out-of-memory error when the argument is a blob and the scratch buffer is not
    obtained;
  \<^item> \<^verbatim>\<open>error in compress()\<close> when the buffer is obtained and the codec reports an error;
  \<^item> the unchanged argument when the buffer is obtained and the codec reports no error,
    however short the compressed bytes are.
  So it is never a compressed blob.
\<close>

theorem compress_level0_stores:
  assumes "0 \<le> ZSTD_maxCLevel z"
  shows "fst (sqlarCompressFunc z api X 0) =
           (if sqlite3_value_type X \<noteq> SQLITE_BLOB then Result_value X
            else if \<not> sqlite3_malloc api
                        (int_of_size_t (ZSTD_compressBound z (length (sqlite3_value_blob X))))
              then Result_error_nomem
            else case ZSTD_compress z (ZSTD_compressBound z (length (sqlite3_value_blob X)))
                        (sqlite3_value_blob X) 0 of
                   Inl err \<Rightarrow> Result_error ''error in compress()''
                 | Inr out \<Rightarrow> Result_value X)"
  using assms
  by (simp add: sqlarCompressFunc_def effective_level_def sqlite3_value_bytes_def Let_def
      split: sum.splits)

theorem compress_level0_stores_witness:
  "fst (sqlarCompressFunc rle_zstd heap_ok (blob eight_A) 0) = Result_value (blob eight_A)
   \<and> length eight_A_packed < length eight_A
   \<and> fst (sqlarCompressFunc rle_zstd heap_ok
            \<lparr>sqlite3_value_type = SQLITE_TEXT, sqlite3_value_blob = eight_A\<rparr> 0)
       = Result_value \<lparr>sqlite3_value_type = SQLITE_TEXT, sqlite3_value_blob = eight_A\<rparr>
   \<and> fst (sqlarCompressFunc rle_zstd heap_exhausted (blob eight_A) 0) = Result_error_nomem
   \<and> fst (sqlarCompressFunc failing_zstd heap_ok (blob eight_A) 0)
       = Result_error ''error in compress()''"
  using
    compress_level0_stores [where z = rle_zstd and api = heap_ok and X = "blob eight_A"]
    compress_level0_stores
      [where z = rle_zstd and api = heap_ok
         and X = "\<lparr>sqlite3_value_type = SQLITE_TEXT, sqlite3_value_blob = eight_A\<rparr>"]
    compress_level0_stores
      [where z = rle_zstd and api = heap_exhausted and X = "blob eight_A"]
    compress_level0_stores [where z = failing_zstd and api = heap_ok and X = "blob eight_A"]
  by (simp add: sqlar_defs run_defs)

text \<open>
  C5. For every payload, the decoder returns the payload unchanged whenever the declared
  size is at most zero or equals the byte length of the payload; in these cases no buffer
  is allocated and the decompression routine is not invoked (the list of calls is empty).
\<close>

theorem uncompress_short_circuit:
  assumes "sz \<le> 0 \<or> sz = int (length (sqlite3_value_blob X))"
  shows "sqlarUncompressFunc z api X sz = (Result_value X, [])"
  using assms by (simp add: sqlarUncompressFunc_def sqlite3_value_bytes_def)

theorem uncompress_short_circuit_witness:
  "sqlarUncompressFunc rle_zstd heap_ok (blob eight_A) 8 = (Result_value (blob eight_A), [])
   \<and> sqlarUncompressFunc rle_zstd heap_ok (blob eight_A_packed) 0
       = (Result_value (blob eight_A_packed), [])
   \<and> sqlarUncompressFunc rle_zstd heap_ok (blob eight_A_packed) (- 5)
       = (Result_value (blob eight_A_packed), [])"
  using
    uncompress_short_circuit
      [where sz = 8 and X = "blob eight_A" and z = rle_zstd and api = heap_ok]
    uncompress_short_circuit
      [where sz = 0 and X = "blob eight_A_packed" and z = rle_zstd and api = heap_ok]
    uncompress_short_circuit
      [where sz = "- 5" and X = "blob eight_A_packed" and z = rle_zstd and api = heap_ok]
  by (simp add: blob_def eight_A_def)

text \<open>
  C6. For every argument and every level strictly above the codec's maximum level (a
  maximum that is not negative, as zstd's is), the compressor does exactly what it does
  at the maximum level: same result, same calls. The level \<open>-1\<close> is replaced by the
  codec's default level before the codec is called: the compression call carries
  \<open>ZSTD_CLEVEL_DEFAULT\<close>.
\<close>

theorem compress_level_clamping:
  assumes "0 \<le> ZSTD_maxCLevel z" and "ZSTD_maxCLevel z < L"
  shows "sqlarCompressFunc z api X L = sqlarCompressFunc z api X (ZSTD_maxCLevel z)
       \<and> effective_level z L = ZSTD_maxCLevel z
       \<and> effective_level z (- 1) = ZSTD_CLEVEL_DEFAULT z
       \<and> (sqlite3_value_type X = SQLITE_BLOB
            \<and> sqlite3_malloc api
                (int_of_size_t (ZSTD_compressBound z (length (sqlite3_value_blob X))))
          \<longrightarrow> snd (sqlarCompressFunc z api X (- 1))
              = [Call_sqlite3_malloc
                   (int_of_size_t (ZSTD_compressBound z (length (sqlite3_value_blob X)))),
                 Call_ZSTD_compress (ZSTD_compressBound z (length (sqlite3_value_blob X)))
                   (sqlite3_value_blob X) (ZSTD_CLEVEL_DEFAULT z),
                 Call_sqlite3_free])"
  using assms
  by (simp add: sqlarCompressFunc_def effective_level_def sqlite3_value_bytes_def Let_def
      split: sum.splits)

theorem compress_level_clamping_witness:
  "sqlarCompressFunc rle_zstd heap_ok (blob eight_A) 100
     = sqlarCompressFunc rle_zstd heap_ok (blob eight_A) 22
   \<and> effective_level rle_zstd 100 = 22
   \<and> effective_level rle_zstd (- 1) = 3
   \<and> snd (sqlarCompressFunc rle_zstd heap_ok (blob eight_A) (- 1))
       = [Call_sqlite3_malloc 20, Call_ZSTD_compress 20 eight_A 3, Call_sqlite3_free]"
  using
    compress_level_clamping
      [where z = rle_zstd and api = heap_ok and X = "blob eight_A" and L = 100]
  by (simp add: sqlar_defs run_defs)

text \<open>
  C7. For a blob, when the codec's compression routine reports an error the compressor
  signals the error \<^verbatim>\<open>error in compress()\<close> and returns no blob: neither the compressed
  bytes nor the original argument.
\<close>

theorem compress_error_propagates:
  assumes "sqlite3_value_type X = SQLITE_BLOB"
    and "sqlite3_malloc api
           (int_of_size_t (ZSTD_compressBound z (length (sqlite3_value_blob X))))"
    and "ZSTD_compress z (ZSTD_compressBound z (length (sqlite3_value_blob X)))
           (sqlite3_value_blob X) (effective_level z L) = Inl err"
  shows "sqlarCompressFunc z api X L =
           (Result_error ''error in compress()'',
            [Call_sqlite3_malloc
               (int_of_size_t (ZSTD_compressBound z (length (sqlite3_value_blob X)))),
             Call_ZSTD_compress (ZSTD_compressBound z (length (sqlite3_value_blob X)))
               (sqlite3_value_blob X) (effective_level z L),
             Call_sqlite3_free])"
  using assms by (simp add: sqlarCompressFunc_def sqlite3_value_bytes_def Let_def)

theorem compress_error_propagates_witness:
  "sqlarCompressFunc failing_zstd heap_ok (blob eight_A) 3 =
     (Result_error ''error in compress()'',
      [Call_sqlite3_malloc 20, Call_ZSTD_compress 20 eight_A 3, Call_sqlite3_free])"
  using
    compress_error_propagates
      [where X = "blob eight_A" and api = heap_ok and z = failing_zstd and L = 3
         and err = 64]
  by (simp add: sqlar_defs run_defs)

text \<open>
  C8, as stated, at a concrete input. An empty blob has the type \<^verbatim>\<open>SQLITE_BLOB\<close>, so the
  compressor allocates and compresses for it as for any other blob: when the allocation
  fails the result is the out-of-memory error, and when the codec reports an error the
  result is \<^verbatim>\<open>error in compress()\<close>; in neither case the empty payload.
\<close>

theorem compress_empty_counterexample:
  "fst (sqlarCompressFunc rle_zstd heap_exhausted (blob []) 3) = Result_error_nomem
   \<and> fst (sqlarCompressFunc rle_zstd heap_exhausted (blob []) 3) \<noteq> Result_value (blob [])
   \<and> fst (sqlarCompressFunc failing_zstd heap_ok (blob []) 3)
       = Result_error ''error in compress()''"
  by (simp add: sqlar_defs run_defs)

text \<open>
  C8, amended. For the empty blob and every level, the compressor first asks for the
  scratch buffer. When it does not get it, the result is the out-of-memory error and the
  codec is not called. When it gets it, it calls the codec on the empty input with the
  effective level: the result is \<^verbatim>\<open>error in compress()\<close> when the codec reports an
  error, and the empty blob unchanged otherwise; never a compressed blob. The decoder
  called on the empty blob with the declared size 0 returns it unchanged and makes no
  call.
\<close>

theorem empty_payload:
  "sqlarCompressFunc z api (blob []) L =
     (if \<not> sqlite3_malloc api (int_of_size_t (ZSTD_compressBound z 0))
      then (Result_error_nomem,
            [Call_sqlite3_malloc (int_of_size_t (ZSTD_compressBound z 0))])
      else (case ZSTD_compress z (ZSTD_compressBound z 0) [] (effective_level z L) of
              Inl err \<Rightarrow> Result_error ''error in compress()''
            | Inr out \<Rightarrow> Result_value (blob []),
            [Call_sqlite3_malloc (int_of_size_t (ZSTD_compressBound z 0)),
             Call_ZSTD_compress (ZSTD_compressBound z 0) [] (effective_level z L),
             Call_sqlite3_free]))
   \<and> sqlarUncompressFunc z api (blob []) 0 = (Result_value (blob []), [])"
  by (simp add: sqlarCompressFunc_def sqlarUncompressFunc_def sqlite3_value_bytes_def
      blob_def Let_def split: sum.splits)

theorem empty_payload_witness:
  "sqlarCompressFunc rle_zstd heap_ok (blob []) 3
     = (Result_value (blob []),
        [Call_sqlite3_malloc 4, Call_ZSTD_compress 4 [] 3, Call_sqlite3_free])
   \<and> sqlarCompressFunc rle_zstd heap_exhausted (blob []) (- 1)
     = (Result_error_nomem, [Call_sqlite3_malloc 4])
   \<and> sqlarCompressFunc failing_zstd heap_ok (blob []) 0
     = (Result_error ''error in compress()'',
        [Call_sqlite3_malloc 4, Call_ZSTD_compress 4 [] 0, Call_sqlite3_free])
   \<and> sqlarUncompressFunc rle_zstd heap_ok (blob []) 0 = (Result_value (blob []), [])"
  using
    empty_payload [where z = rle_zstd and api = heap_ok and L = 3]
    empty_payload [where z = rle_zstd and api = heap_exhausted and L = "- 1"]
    empty_payload [where z = failing_zstd and api = heap_ok and L = 0]
  by (simp add: sqlar_defs run_defs)

text \<open>
  C9, as stated, at a concrete input. A blob of eight bytes at level 0, when the scratch
  buffer is not obtained: lines 78--80 return the out-of-memory error before the codec is
  reached, so no compression call is made.
\<close>

theorem compress_level0_nomem_counterexample:
  "fst (sqlarCompressFunc rle_zstd heap_exhausted (blob eight_A) 0) = Result_error_nomem
   \<and> filter is_codec_call (snd (sqlarCompressFunc rle_zstd heap_exhausted (blob eight_A) 0))
       = []"
  by (simp add: sqlar_defs run_defs)

text \<open>
  C9, amended. For every blob, under a codec whose maximum level is not negative, the
  compressor called with level 0 first asks for the scratch buffer. When it does not get
  it, the result is the out-of-memory error and the allocation is the only call. When it
  gets it, it still calls \<^verbatim>\<open>ZSTD_compress\<close>, with level 0, and only then picks the
  result: \<^verbatim>\<open>error in compress()\<close> when the codec reports an error, and the unchanged
  argument whenever the codec succeeds.
\<close>

theorem compress_level0_still_compresses:
  assumes "sqlite3_value_type X = SQLITE_BLOB"
    and "0 \<le> ZSTD_maxCLevel z"
  shows "sqlarCompressFunc z api X 0 =
           (if \<not> sqlite3_malloc api
                   (int_of_size_t (ZSTD_compressBound z (length (sqlite3_value_blob X))))
            then (Result_error_nomem,
                  [Call_sqlite3_malloc
                     (int_of_size_t (ZSTD_compressBound z (length (sqlite3_value_blob X))))])
            else (case ZSTD_compress z (ZSTD_compressBound z (length (sqlite3_value_blob X)))
                         (sqlite3_value_blob X) 0 of
                    Inl err \<Rightarrow> Result_error ''error in compress()''
                  | Inr out \<Rightarrow> Result_value X,
                  [Call_sqlite3_malloc
                     (int_of_size_t (ZSTD_compressBound z (length (sqlite3_value_blob X)))),
                   Call_ZSTD_compress (ZSTD_compressBound z (length (sqlite3_value_blob X)))
                     (sqlite3_value_blob X) 0,
                   Call_sqlite3_free]))"
  using assms
  by (simp add: sqlarCompressFunc_def effective_level_def sqlite3_value_bytes_def Let_def
      split: sum.splits)

theorem compress_level0_still_compresses_witness:
  "sqlarCompressFunc failing_zstd heap_ok (blob eight_A) 0
     = (Result_error ''error in compress()'',
        [Call_sqlite3_malloc 20, Call_ZSTD_compress 20 eight_A 0, Call_sqlite3_free])
   \<and> sqlarCompressFunc rle_zstd heap_ok (blob eight_A) 0
     = (Result_value (blob eight_A),
        [Call_sqlite3_malloc 20, Call_ZSTD_compress 20 eight_A 0, Call_sqlite3_free])
   \<and> sqlarCompressFunc rle_zstd heap_exhausted (blob eight_A) 0
     = (Result_error_nomem, [Call_sqlite3_malloc 20])"
  using
    compress_level0_still_compresses
      [where z = failing_zstd and api = heap_ok and X = "blob eight_A"]
    compress_level0_still_compresses
      [where z = rle_zstd and api = heap_ok and X = "blob eight_A"]
    compress_level0_still_compresses
      [where z = rle_zstd and api = heap_exhausted and X = "blob eight_A"]
  by (simp add: sqlar_defs run_defs)

text \<open>
  C10. For every payload with a declared size that is positive and differs from the
  payload's length, the first call the decoder makes is the allocation of that many
  bytes; when the allocation fails the result is the out-of-memory error whatever the
  payload's bytes are, so also for a payload without the magic byte.
\<close>

theorem uncompress_allocates_first:
  assumes "0 < sz" and "sz \<noteq> int (length (sqlite3_value_blob X))"
  shows "hd (snd (sqlarUncompressFunc z api X sz)) = Call_sqlite3_malloc sz
       \<and> snd (sqlarUncompressFunc z api X sz) \<noteq> []
       \<and> (\<not> sqlite3_malloc api sz
          \<longrightarrow> sqlarUncompressFunc z api X sz
              = (Result_error_nomem, [Call_sqlite3_malloc sz, Call_sqlite3_free]))"
  using assms
  by (simp add: sqlarUncompressFunc_def sqlite3_value_bytes_def Let_def split: sum.splits)

theorem uncompress_allocates_first_witness:
  "[0, 0, 0, 0, 0 :: byte] ! 0 \<noteq> MAGIC_ZSTD_0
   \<and> sqlarUncompressFunc rle_zstd heap_exhausted (blob [0, 0, 0, 0, 0]) 10
     = (Result_error_nomem, [Call_sqlite3_malloc 10, Call_sqlite3_free])
   \<and> hd (snd (sqlarUncompressFunc rle_zstd heap_ok (blob [0, 0, 0, 0, 0]) 10))
     = Call_sqlite3_malloc 10"
  using
    uncompress_allocates_first
      [where sz = 10 and X = "blob [0, 0, 0, 0, 0]" and api = heap_exhausted and z = rle_zstd]
    uncompress_allocates_first
      [where sz = 10 and X = "blob [0, 0, 0, 0, 0]" and api = heap_ok and z = rle_zstd]
  by (simp add: sqlar_defs run_defs)

end
